theory Spec2Isabelle
  imports Complex_Main
begin

section \<open>URL threat classification of the url-scanner function\<close>

text \<open>
  The development embeds the lexical classifier of
  \<^verbatim>\<open>supabase/functions/url-scanner/index.ts\<close>: \<^verbatim>\<open>extractMLFeatures\<close>,
  \<^verbatim>\<open>calculateEntropy\<close>, \<^verbatim>\<open>calculateMLThreatScore\<close>,
  \<^verbatim>\<open>performMLClassification\<close>, \<^verbatim>\<open>checkHistoricalPatterns\<close> and
  \<^verbatim>\<open>updateMLPatterns\<close>.

  Modelling decisions.
  \<^item> JavaScript numbers that hold counts and scores are \<open>int\<close>; numbers that hold
    probabilities and the entropy are \<open>real\<close>. The reals idealise IEEE doubles: rounding
    is not modelled.
  \<^item> A JavaScript string is a list of code units; \<open>string\<close> models the strings whose
    code units are below 256. \<^verbatim>\<open>calculateEntropy\<close> is modelled for any type of
    code unit.
  \<^item> The platform's \<^verbatim>\<open>URL\<close> constructor is not code of the repository. The
    extractor takes it as a parameter: a function that returns the \<^verbatim>\<open>hostname\<close> of
    the parsed URL, or \<open>None\<close> where the constructor throws.
  \<^item> An awaited call of the database client either performs the request, or resolves
    with an error object (\<^verbatim>\<open>data\<close> is then \<^verbatim>\<open>null\<close>), or rejects (an exception).
\<close>

subsection \<open>Feature record\<close>

text \<open>The object literal returned by \<^verbatim>\<open>extractMLFeatures\<close>, field by field.\<close>

record ml_features =
  urlLength :: int
  numDots :: int
  numHyphens :: int
  numDigits :: int
  numSpecialChars :: int
  hasIpAddress :: bool
  hasSuspiciousKeywords :: bool
  entropyScore :: real
  subdomainCount :: int
  pathDepth :: int

subsection \<open>Threat score\<close>

text \<open>
  \<^verbatim>\<open>calculateMLThreatScore\<close>: \<^verbatim>\<open>let score = 0\<close>, ten guarded increments in the
  source's order, then \<^verbatim>\<open>Math.min(100, score)\<close>.
\<close>

definition calculateMLThreatScore :: "ml_features \<Rightarrow> int" where
  "calculateMLThreatScore features =
    (let score = 0;
         score = (if urlLength features > 75 then score + 15 else score);
         score = (if urlLength features > 100 then score + 10 else score);
         score = (if numHyphens features > 2 then score + 10 else score);
         score = (if numDigits features > 8 then score + 10 else score);
         score = (if numSpecialChars features > 5 then score + 15 else score);
         score = (if hasIpAddress features then score + 25 else score);
         score = (if hasSuspiciousKeywords features then score + 20 else score);
         score = (if entropyScore features > 4.5 then score + 15 else score);
         score = (if subdomainCount features > 3 then score + 15 else score);
         score = (if pathDepth features > 5 then score + 10 else score)
     in min 100 score)"

text \<open>The points a rule contributes: its weight when its condition holds, else nothing.\<close>

definition points :: "bool \<Rightarrow> int \<Rightarrow> int" where
  "points fired weight = (if fired then weight else 0)"

text \<open>The contributions of the eight rules that do not read the length.\<close>

definition otherPoints :: "ml_features \<Rightarrow> int" where
  "otherPoints f =
     points (numHyphens f > 2) 10 + points (numDigits f > 8) 10
   + points (numSpecialChars f > 5) 15 + points (hasIpAddress f) 25
   + points (hasSuspiciousKeywords f) 20 + points (entropyScore f > 4.5) 15
   + points (subdomainCount f > 3) 15 + points (pathDepth f > 5) 10"

subsection \<open>Category labels\<close>

text \<open>
  The five pushes at the head of \<^verbatim>\<open>performMLClassification\<close>, in the source's order;
  \<^verbatim>\<open>push\<close> appends at the end.
\<close>

definition initialCategories :: "ml_features \<Rightarrow> string list" where
  "initialCategories features =
    (let predictedCategories = [];
         predictedCategories = (if hasIpAddress features
            then predictedCategories @ [''IP-based URL''] else predictedCategories);
         predictedCategories = (if hasSuspiciousKeywords features
            then predictedCategories @ [''Suspicious keywords''] else predictedCategories);
         predictedCategories = (if urlLength features > 100
            then predictedCategories @ [''Abnormally long URL''] else predictedCategories);
         predictedCategories = (if subdomainCount features > 3
            then predictedCategories @ [''Excessive subdomains''] else predictedCategories);
         predictedCategories = (if entropyScore features > 4.5
            then predictedCategories @ [''High entropy''] else predictedCategories)
     in predictedCategories)"

text \<open>
  The labels as the specification's rule table orders them: the label of a rule that
  fired, row after row of the table.
\<close>

definition label :: "bool \<Rightarrow> string \<Rightarrow> string list" where
  "label fired name = (if fired then [name] else [])"

definition tableOrderCategories :: "ml_features \<Rightarrow> string list" where
  "tableOrderCategories f =
     label (urlLength f > 100) ''Abnormally long URL''
   @ label (hasIpAddress f) ''IP-based URL''
   @ label (hasSuspiciousKeywords f) ''Suspicious keywords''
   @ label (entropyScore f > 4.5) ''High entropy''
   @ label (subdomainCount f > 3) ''Excessive subdomains''"

text \<open>Two feature sets used to evaluate the scorer.\<close>

definition quietFeatures :: ml_features where
  "quietFeatures = \<lparr> urlLength = 19, numDots = 1, numHyphens = 0, numDigits = 0,
     numSpecialChars = 3, hasIpAddress = False, hasSuspiciousKeywords = False,
     entropyScore = 3, subdomainCount = 0, pathDepth = 0 \<rparr>"

definition loudFeatures :: ml_features where
  "loudFeatures = \<lparr> urlLength = 101, numDots = 9, numHyphens = 3, numDigits = 9,
     numSpecialChars = 6, hasIpAddress = True, hasSuspiciousKeywords = True,
     entropyScore = 5, subdomainCount = 4, pathDepth = 6 \<rparr>"

subsection \<open>Strings\<close>

text \<open>\<^verbatim>\<open>s.startsWith(p)\<close> and \<^verbatim>\<open>s.includes(k)\<close>.\<close>

fun startsWith :: "string \<Rightarrow> string \<Rightarrow> bool" where
  "startsWith s [] = True"
| "startsWith [] (p # ps) = False"
| "startsWith (c # cs) (p # ps) = (c = p \<and> startsWith cs ps)"

fun stringIncludes :: "string \<Rightarrow> string \<Rightarrow> bool" where
  "stringIncludes [] k = (k = [])"
| "stringIncludes (c # cs) k = (startsWith (c # cs) k \<or> stringIncludes cs k)"

text \<open>
  \<^verbatim>\<open>s.split(sep)\<close> for a separator of one character: the pieces between the
  separators, empty pieces included; a string without separator is its only piece.
\<close>

fun splitOn :: "char \<Rightarrow> string \<Rightarrow> string list" where
  "splitOn sep [] = [[]]"
| "splitOn sep (c # cs) =
     (if c = sep then [] # splitOn sep cs
      else (case splitOn sep cs of [] \<Rightarrow> [[c]] | p # ps \<Rightarrow> (c # p) # ps))"

text \<open>
  \<^verbatim>\<open>s.toLowerCase()\<close> on code units below 256: the letters A to Z, and the
  Latin-1 capitals from U+00C0 to U+00DE without the multiplication sign U+00D7, move up
  by 32; every other code unit stays.
\<close>

definition lowerChar :: "char \<Rightarrow> char" where
  "lowerChar c =
     (let n = (of_char c :: nat)
      in if (65 \<le> n \<and> n \<le> 90) \<or> (192 \<le> n \<and> n \<le> 222 \<and> n \<noteq> 215)
         then char_of (n + 32) else c)"

definition toLowerCase :: "string \<Rightarrow> string" where
  "toLowerCase s = map lowerChar s"

text \<open>The character classes \<^verbatim>\<open>\d\<close> and \<^verbatim>\<open>[a-zA-Z0-9.-]\<close>.\<close>

definition isDigit :: "char \<Rightarrow> bool" where
  "isDigit c = (let n = (of_char c :: nat) in 48 \<le> n \<and> n \<le> 57)"

definition isPlain :: "char \<Rightarrow> bool" where
  "isPlain c =
     (let n = (of_char c :: nat)
      in (97 \<le> n \<and> n \<le> 122) \<or> (65 \<le> n \<and> n \<le> 90) \<or> (48 \<le> n \<and> n \<le> 57)
         \<or> c = CHR ''.'' \<or> c = CHR ''-'')"

subsection \<open>The regular expression for an IP address\<close>

text \<open>
  The pattern \<^verbatim>\<open>/\d{1,3}\.\d{1,3}\.\d{1,3}\.\d{1,3}/\<close> is a sequence of items: a
  bounded run of digits, or one literal character. \<open>matchAt\<close> says whether the items
  match a prefix of the string, trying every admissible length of a run (backtracking);
  \<open>regexTest\<close> is \<^verbatim>\<open>RegExp.prototype.test\<close> without anchors: a match may start at
  any position.
\<close>

datatype regexItem = Digits nat nat | Lit char

fun matchAt :: "regexItem list \<Rightarrow> string \<Rightarrow> bool" where
  "matchAt [] s = True"
| "matchAt (Lit c # items) s = (case s of [] \<Rightarrow> False | x # t \<Rightarrow> x = c \<and> matchAt items t)"
| "matchAt (Digits lo hi # items) s =
     list_ex (\<lambda>k. k \<le> length s \<and> list_all isDigit (take k s) \<and> matchAt items (drop k s))
       [lo ..< Suc hi]"

fun regexTest :: "regexItem list \<Rightarrow> string \<Rightarrow> bool" where
  "regexTest items [] = matchAt items []"
| "regexTest items (c # cs) = (matchAt items (c # cs) \<or> regexTest items cs)"

definition ipPattern :: "regexItem list" where
  "ipPattern = [Digits 1 3, Lit CHR ''.'', Digits 1 3, Lit CHR ''.'',
                Digits 1 3, Lit CHR ''.'', Digits 1 3]"

subsection \<open>Entropy\<close>

text \<open>
  \<^verbatim>\<open>calculateEntropy\<close>. The object \<^verbatim>\<open>frequencies\<close> is an association list from
  characters to counts; \<open>bump\<close> is
  \<^verbatim>\<open>frequencies[char] = (frequencies[char] || 0) + 1\<close>. The second loop visits every
  key once; the order of the visit does not change a sum of reals.
\<close>

fun bump :: "'a \<Rightarrow> ('a \<times> nat) list \<Rightarrow> ('a \<times> nat) list" where
  "bump c [] = [(c, 1)]"
| "bump c ((k, n) # fr) = (if k = c then (k, n + 1) # fr else (k, n) # bump c fr)"

fun countChars :: "'a list \<Rightarrow> ('a \<times> nat) list \<Rightarrow> ('a \<times> nat) list" where
  "countChars [] frequencies = frequencies"
| "countChars (c # cs) frequencies = countChars cs (bump c frequencies)"

definition calculateEntropy :: "'a list \<Rightarrow> real" where
  "calculateEntropy str =
    (let len = length str;
         frequencies = countChars str []
     in fold (\<lambda>(char, n) entropy. let p = real n / real len in entropy - p * log 2 p)
          frequencies 0)"

subsection \<open>Feature extraction\<close>

definition suspiciousKeywords :: "string list" where
  "suspiciousKeywords = [''login'', ''verify'', ''account'', ''update'', ''secure'',
     ''banking'', ''password'', ''confirm'', ''suspended'', ''locked'', ''urgent'']"

text \<open>
  The argument of \<^verbatim>\<open>new URL(...)\<close>, and the \<^verbatim>\<open>try\<close>/\<^verbatim>\<open>catch\<close> around it:
  the hostname of the parsed URL, or the first piece of \<^verbatim>\<open>url.split('/')\<close> when the
  constructor throws.
\<close>

definition parseInput :: "string \<Rightarrow> string" where
  "parseInput url = (if startsWith url ''http'' then url else ''https://'' @ url)"

definition hostnameOf :: "(string \<Rightarrow> string option) \<Rightarrow> string \<Rightarrow> string" where
  "hostnameOf parseHostname url =
     (case parseHostname (parseInput url) of
        Some hostname \<Rightarrow> hostname
      | None \<Rightarrow> hd (splitOn CHR ''/'' url))"

definition extractMLFeatures :: "(string \<Rightarrow> string option) \<Rightarrow> string \<Rightarrow> ml_features" where
  "extractMLFeatures parseHostname url =
    (let urlLower = toLowerCase url;
         numDots = int (length (filter (\<lambda>c. c = CHR ''.'') url));
         numHyphens = int (length (filter (\<lambda>c. c = CHR ''-'') url));
         numDigits = int (length (filter isDigit url));
         numSpecialChars = int (length (filter (\<lambda>c. \<not> isPlain c) url));
         hasIpAddress = regexTest ipPattern url;
         hasSuspiciousKeywords = list_ex (\<lambda>k. stringIncludes urlLower k) suspiciousKeywords;
         entropyScore = calculateEntropy url;
         hostname = hostnameOf parseHostname url;
         subdomainCount = max 0 (int (length (splitOn CHR ''.'' hostname)) - 2);
         pathDepth = max 0 (int (length (splitOn CHR ''/'' url)) - 3)
     in \<lparr> urlLength = int (length url), numDots = numDots, numHyphens = numHyphens,
          numDigits = numDigits, numSpecialChars = numSpecialChars,
          hasIpAddress = hasIpAddress, hasSuspiciousKeywords = hasSuspiciousKeywords,
          entropyScore = entropyScore, subdomainCount = subdomainCount,
          pathDepth = pathDepth \<rparr>)"

text \<open>One to three digits: what \<^verbatim>\<open>\d{1,3}\<close> matches.\<close>

definition octet :: "string \<Rightarrow> bool" where
  "octet a = (1 \<le> length a \<and> length a \<le> 3 \<and> list_all isDigit a)"

text \<open>
  The path depth in the specification's words: remove the scheme (the text up to the
  first \<^verbatim>\<open>://\<close>, when there is one) and the host (the text up to the next
  \<^verbatim>\<open>/\<close>); the rest is the path. \<open>specPathSegments\<close> counts the segments of the
  path, the pieces between its slashes after the leading one; \<open>specPathPieces\<close> counts
  the pieces of the path as \<^verbatim>\<open>split\<close> would, the empty piece before the leading
  slash included.
\<close>

fun afterScheme :: "string \<Rightarrow> string option" where
  "afterScheme (a # b # c # rest) =
     (if a = CHR '':'' \<and> b = CHR ''/'' \<and> c = CHR ''/'' then Some rest
      else afterScheme (b # c # rest))"
| "afterScheme rest = None"

definition specPath :: "string \<Rightarrow> string" where
  "specPath url =
     dropWhile (\<lambda>c. c \<noteq> CHR ''/'') (case afterScheme url of Some rest \<Rightarrow> rest | None \<Rightarrow> url)"

definition specPathSegments :: "string \<Rightarrow> int" where
  "specPathSegments url =
     (case specPath url of [] \<Rightarrow> 0 | slash # rest \<Rightarrow> int (length (splitOn CHR ''/'' rest)))"

definition specPathPieces :: "string \<Rightarrow> int" where
  "specPathPieces url = int (length (splitOn CHR ''/'' (specPath url)))"

text \<open>
  Results of the URL constructor on the inputs evaluated below, after the WHATWG URL
  Standard: the hostname of an absolute URL, and a failure for a host that holds a space.
  Inputs outside the table are not evaluated anywhere.
\<close>

definition sampleHostname :: "string \<Rightarrow> string option" where
  "sampleHostname input =
     (if input = ''https://example.com/a/b'' then Some ''example.com''
      else if input = ''https://example.com/1.2.3.4'' then Some ''example.com''
      else if input = ''http://192.168.1.1/login-verify-account'' then Some ''192.168.1.1''
      else if input = ''https://example.com'' then Some ''example.com''
      else if input = ''https://1.2.3.4 x'' then None
      else None)"

text \<open>The count that \<^verbatim>\<open>frequencies\<close> holds for a character, 0 for a missing key.\<close>

definition freqOf :: "('a \<times> nat) list \<Rightarrow> 'a \<Rightarrow> nat" where
  "freqOf fr k = (case map_of fr k of None \<Rightarrow> 0 | Some n \<Rightarrow> n)"

subsection \<open>The pattern store\<close>

text \<open>
  A row of the table \<^verbatim>\<open>ml_patterns\<close> (migration
  \<^verbatim>\<open>20251025032226_add_ml_web3_features.sql\<close>) with the columns the function reads
  or writes, and a row of \<^verbatim>\<open>blockchain_logs\<close> of type \<^verbatim>\<open>pattern_learned\<close>.
  The column \<^verbatim>\<open>id\<close> is \<open>row_id\<close>, the column \<^verbatim>\<open>features\<close> is
  \<open>row_features\<close>. Timestamps and identifiers are natural numbers.
\<close>

datatype pattern_type = phishing | legitimate | suspicious | unknown

record ml_pattern =
  row_id :: nat
  url_pattern :: string
  pattern_type :: pattern_type
  confidence_score :: real
  detection_count :: int
  last_detected :: nat
  row_features :: ml_features

record pattern_log =
  log_url :: string
  log_pattern_type :: pattern_type
  log_threat_probability :: real
  log_features :: ml_features

record store =
  ml_patterns :: "ml_pattern list"
  blockchain_logs :: "pattern_log list"

text \<open>
  What the world outside does during one classification: the result of awaiting the
  query of \<^verbatim>\<open>checkHistoricalPatterns\<close> (its \<^verbatim>\<open>data\<close>, which is \<^verbatim>\<open>null\<close> for no
  row and for an error reply, or a rejection), the fate of the three awaited calls of
  \<^verbatim>\<open>updateMLPatterns\<close> (the select, the update or insert, the log insert), the
  clock (\<^verbatim>\<open>new Date()\<close> and the column default \<^verbatim>\<open>now()\<close>) and the identifier
  the table generates for a new row.
\<close>

datatype 'a awaited = Resolved 'a | Rejected

datatype call = Performed | ErrorReply | Thrown

record environment =
  historyQuery :: "ml_pattern option awaited"
  selectCall :: call
  writeCall :: call
  logCall :: call
  now :: nat
  newId :: nat

text \<open>\<^verbatim>\<open>.maybeSingle()\<close>: the row when exactly one matches, \<^verbatim>\<open>null\<close> otherwise.\<close>

definition maybeSingle :: "'a list \<Rightarrow> 'a option" where
  "maybeSingle rows = (case rows of [r] \<Rightarrow> Some r | _ \<Rightarrow> None)"

text \<open>\<^verbatim>\<open>checkHistoricalPatterns\<close>: the data of the query; \<^verbatim>\<open>null\<close> when it throws.\<close>

definition checkHistoricalPatterns :: "ml_pattern option awaited \<Rightarrow> ml_pattern option" where
  "checkHistoricalPatterns query =
     (case query of Resolved data \<Rightarrow> data | Rejected \<Rightarrow> None)"

text \<open>
  \<^verbatim>\<open>updateMLPatterns\<close>. A call that throws leaves the \<^verbatim>\<open>try\<close> block: the
  \<^verbatim>\<open>catch\<close> logs and returns, so the store stays as the calls before left it. A call
  that resolves with an error changes nothing and the function goes on.
\<close>

definition updatedRow :: "environment \<Rightarrow> ml_features \<Rightarrow> real \<Rightarrow> ml_pattern \<Rightarrow> ml_pattern \<Rightarrow> ml_pattern" where
  "updatedRow env features threatProbability existing r =
     r\<lparr> detection_count := detection_count existing + 1,
        last_detected := now env,
        confidence_score := (confidence_score existing + threatProbability) / 2,
        row_features := features \<rparr>"

definition insertedRow :: "environment \<Rightarrow> string \<Rightarrow> pattern_type \<Rightarrow> ml_features \<Rightarrow> real \<Rightarrow> ml_pattern" where
  "insertedRow env domain patternType features threatProbability =
     \<lparr> row_id = newId env, url_pattern = domain, pattern_type = patternType,
       confidence_score = threatProbability, detection_count = 1,
       last_detected = now env, row_features = features \<rparr>"

definition updateMLPatterns :: "environment \<Rightarrow> string \<Rightarrow> ml_features \<Rightarrow> real \<Rightarrow> store \<Rightarrow> store" where
  "updateMLPatterns env domain features threatProbability db =
    (let patternType = (if threatProbability > 0.7 then phishing
                        else if threatProbability > 0.4 then suspicious else legitimate)
     in if selectCall env = Thrown then db
        else
          let existing = (if selectCall env = Performed
                          then maybeSingle (filter (\<lambda>r. url_pattern r = domain) (ml_patterns db))
                          else None)
          in if writeCall env = Thrown then db
             else
               let db1 = (if writeCall env = Performed
                          then (case existing of
                                  Some e \<Rightarrow> db\<lparr> ml_patterns :=
                                     map (\<lambda>r. if row_id r = row_id e
                                               then updatedRow env features threatProbability e r
                                               else r) (ml_patterns db) \<rparr>
                                | None \<Rightarrow> db\<lparr> ml_patterns := ml_patterns db @
                                     [insertedRow env domain patternType features threatProbability] \<rparr>)
                          else db)
               in if logCall env = Performed
                  then db1\<lparr> blockchain_logs := blockchain_logs db1 @
                         [\<lparr> log_url = domain, log_pattern_type = patternType,
                            log_threat_probability = threatProbability,
                            log_features = features \<rparr>] \<rparr>
                  else db1)"

subsection \<open>Classification\<close>

text \<open>The object \<^verbatim>\<open>performMLClassification\<close> returns.\<close>

record assessment =
  isPhishing :: bool
  confidence :: real
  threatProbability :: real
  predictedCategories :: "string list"

text \<open>
  The part of \<^verbatim>\<open>performMLClassification\<close> between the lookup and the
  \<^verbatim>\<open>return\<close>: the adjustment by the historical pattern and the returned object.
\<close>

definition blendWithHistory :: "real \<Rightarrow> string list \<Rightarrow> ml_pattern option \<Rightarrow> assessment" where
  "blendWithHistory rawProbability categories historicalPattern =
    (let adjustedProbability = rawProbability;
         confidence = 0.75
     in case historicalPattern of
          None \<Rightarrow>
            \<lparr> isPhishing = adjustedProbability > 0.5, confidence = confidence,
              threatProbability = adjustedProbability, predictedCategories = categories \<rparr>
        | Some h \<Rightarrow>
            let adjustedProbability = (rawProbability + confidence_score h) / 2;
                confidence = min 0.95 (confidence + 0.15);
                categories = (if pattern_type h = phishing
                              then categories @ [''Known phishing pattern''] else categories)
            in \<lparr> isPhishing = adjustedProbability > 0.5, confidence = confidence,
                 threatProbability = adjustedProbability, predictedCategories = categories \<rparr>)"

text \<open>
  \<^verbatim>\<open>performMLClassification\<close>: the assessment, and the store as
  \<^verbatim>\<open>updateMLPatterns\<close> leaves it. No call inside the \<^verbatim>\<open>try\<close> block throws for a
  string: the extractor catches the failure of the URL constructor and both store
  functions catch their own. \<open>classificationFallback\<close> is the object the outer
  \<^verbatim>\<open>catch\<close> returns.
\<close>

definition performMLClassification ::
  "(string \<Rightarrow> string option) \<Rightarrow> environment \<Rightarrow> string \<Rightarrow> string \<Rightarrow> store \<Rightarrow> assessment \<times> store" where
  "performMLClassification parseHostname env url domain db =
    (let features = extractMLFeatures parseHostname url;
         threatScore = calculateMLThreatScore features;
         threatProbability = real_of_int threatScore / 100;
         predictedCategories = initialCategories features;
         historicalPattern = checkHistoricalPatterns (historyQuery env);
         result = blendWithHistory threatProbability predictedCategories historicalPattern;
         db' = updateMLPatterns env domain features (assessment.threatProbability result) db
     in (result, db'))"

definition classificationFallback :: assessment where
  "classificationFallback =
     \<lparr> isPhishing = False, confidence = 0.5, threatProbability = 0, predictedCategories = [] \<rparr>"

text \<open>An assessment is well formed when its probability and confidence lie in [0,1].\<close>

definition wellFormed :: "assessment \<Rightarrow> bool" where
  "wellFormed a =
     (0 \<le> threatProbability a \<and> threatProbability a \<le> 1 \<and> 0 \<le> confidence a \<and> confidence a \<le> 1)"

text \<open>An environment in which every call succeeds, and an empty store.\<close>

definition calmEnvironment :: environment where
  "calmEnvironment = \<lparr> historyQuery = Resolved None, selectCall = Performed,
     writeCall = Performed, logCall = Performed, now = 1, newId = 1 \<rparr>"

definition emptyStore :: store where
  "emptyStore = \<lparr> ml_patterns = [], blockchain_logs = [] \<rparr>"

text \<open>A stored row: the first observation of a domain, with confidence score 0.3.\<close>

definition sampleRow :: ml_pattern where
  "sampleRow = \<lparr> row_id = 1, url_pattern = ''example.com'', pattern_type = legitimate,
     confidence_score = 0.3, detection_count = 1, last_detected = 1,
     row_features = quietFeatures \<rparr>"

section \<open>Properties of the scorer\<close>

lemma if_add_points: "(if c then (x::int) + n else x) = x + points c n"
  by (simp add: points_def)

lemma score_as_sum:
  "calculateMLThreatScore f =
     min 100 (points (urlLength f > 75) 15 + points (urlLength f > 100) 10 + otherPoints f)"
  by (simp add: calculateMLThreatScore_def Let_def if_add_points otherPoints_def)

lemma points_bounds: "0 \<le> w \<Longrightarrow> 0 \<le> points c w \<and> points c w \<le> w"
  by (simp add: points_def)

lemma otherPoints_nonneg: "0 \<le> otherPoints f"
  by (simp add: otherPoints_def points_def)

text \<open>
  Claim C1. For every feature set the score is the sum of the ten fixed rule
  contributions (15 for length above 75, 10 more for length above 100, 10 for more than 2
  hyphens, 10 for more than 8 digits, 15 for more than 5 special characters, 25 for an IP
  address, 20 for a suspicious keyword, 15 for entropy above 4.5, 15 for more than 3
  subdomains, 10 for path depth above 5), capped at 100 after summing; it is never
  negative and never above 100.
\<close>

theorem C1_score_is_capped_sum:
  "calculateMLThreatScore f =
     min 100 (points (urlLength f > 75) 15 + points (urlLength f > 100) 10
            + points (numHyphens f > 2) 10 + points (numDigits f > 8) 10
            + points (numSpecialChars f > 5) 15 + points (hasIpAddress f) 25
            + points (hasSuspiciousKeywords f) 20 + points (entropyScore f > 4.5) 15
            + points (subdomainCount f > 3) 15 + points (pathDepth f > 5) 10)
   \<and> 0 \<le> calculateMLThreatScore f \<and> calculateMLThreatScore f \<le> 100"
proof -
  have "0 \<le> points (urlLength f > 75) 15 + points (urlLength f > 100) 10 + otherPoints f"
    using otherPoints_nonneg [of f] by (simp add: points_def)
  then have "0 \<le> calculateMLThreatScore f \<and> calculateMLThreatScore f \<le> 100"
    by (simp add: score_as_sum)
  moreover have "calculateMLThreatScore f =
     min 100 (points (urlLength f > 75) 15 + points (urlLength f > 100) 10
            + points (numHyphens f > 2) 10 + points (numDigits f > 8) 10
            + points (numSpecialChars f > 5) 15 + points (hasIpAddress f) 25
            + points (hasSuspiciousKeywords f) 20 + points (entropyScore f > 4.5) 15
            + points (subdomainCount f > 3) 15 + points (pathDepth f > 5) 10)"
    by (simp add: score_as_sum otherPoints_def)
  ultimately show ?thesis by blast
qed

theorem C1_score_is_capped_sum_witness: "calculateMLThreatScore loudFeatures = 100"
  using C1_score_is_capped_sum [of loudFeatures]
  by (simp add: loudFeatures_def points_def)

text \<open>
  Claim C8, as the specification states it: with all other features fixed, raising the
  length from 74 to 76 raises the score by at least 15, and raising it from 99 to 101
  raises it by at least 25. Both parts fail. With every other rule firing the cap holds
  the score at 100 for both lengths; and the rule for length above 75 already fires at
  99, so the step from 99 to 101 adds the 10 points of the second rule only.
\<close>

theorem C8_length_step_counterexample:
  "calculateMLThreatScore (loudFeatures\<lparr>urlLength := 76\<rparr>)
     - calculateMLThreatScore (loudFeatures\<lparr>urlLength := 74\<rparr>) = 0
   \<and> calculateMLThreatScore (quietFeatures\<lparr>urlLength := 101\<rparr>)
     - calculateMLThreatScore (quietFeatures\<lparr>urlLength := 99\<rparr>) = 10"
  by (simp add: calculateMLThreatScore_def loudFeatures_def quietFeatures_def)

lemma otherPoints_length: "otherPoints (f\<lparr>urlLength := n\<rparr>) = otherPoints f"
  by (simp add: otherPoints_def)

lemma score_at_length:
  "calculateMLThreatScore (f\<lparr>urlLength := n\<rparr>) =
     min 100 (points (n > 75) 15 + points (n > 100) 10 + otherPoints f)"
  by (simp add: score_as_sum otherPoints_length)

text \<open>
  Claim C8, amended. With all other features fixed, raising the length from 74 to 76
  never lowers the score and raises it by exactly 15 whenever the other rules contribute
  at most 85 (the sum at 76 stays within the cap); raising the length from 99 to 101
  never lowers the score and raises it by exactly 10 whenever the other rules contribute
  at most 75, the two length rules then contributing 25 together at 101.
\<close>

theorem C8_length_step_amended:
  "calculateMLThreatScore (f\<lparr>urlLength := 74\<rparr>) \<le> calculateMLThreatScore (f\<lparr>urlLength := 76\<rparr>)
   \<and> (otherPoints f \<le> 85 \<longrightarrow>
        calculateMLThreatScore (f\<lparr>urlLength := 76\<rparr>)
          = calculateMLThreatScore (f\<lparr>urlLength := 74\<rparr>) + 15)
   \<and> calculateMLThreatScore (f\<lparr>urlLength := 99\<rparr>) \<le> calculateMLThreatScore (f\<lparr>urlLength := 101\<rparr>)
   \<and> (otherPoints f \<le> 75 \<longrightarrow>
        calculateMLThreatScore (f\<lparr>urlLength := 101\<rparr>)
          = calculateMLThreatScore (f\<lparr>urlLength := 99\<rparr>) + 10
        \<and> calculateMLThreatScore (f\<lparr>urlLength := 101\<rparr>) = 25 + otherPoints f)"
  using otherPoints_nonneg [of f] by (simp add: score_at_length points_def min_def)

theorem C8_length_step_amended_witness:
  "otherPoints quietFeatures \<le> 75
   \<and> calculateMLThreatScore (quietFeatures\<lparr>urlLength := 76\<rparr>) = 15
   \<and> calculateMLThreatScore (quietFeatures\<lparr>urlLength := 74\<rparr>) = 0
   \<and> calculateMLThreatScore (quietFeatures\<lparr>urlLength := 101\<rparr>) = 25
   \<and> calculateMLThreatScore (quietFeatures\<lparr>urlLength := 99\<rparr>) = 15"
proof -
  have other: "otherPoints quietFeatures = 0"
    by (simp add: otherPoints_def points_def quietFeatures_def)
  have low: "calculateMLThreatScore (quietFeatures\<lparr>urlLength := 74\<rparr>) = 0"
    by (simp add: calculateMLThreatScore_def quietFeatures_def)
  have mid: "calculateMLThreatScore (quietFeatures\<lparr>urlLength := 99\<rparr>) = 15"
    by (simp add: calculateMLThreatScore_def quietFeatures_def)
  show ?thesis
    using C8_length_step_amended [of quietFeatures] other low mid by simp
qed

text \<open>
  Claim C4, as the specification states it: the labels come in the order of the rule
  table, "Abnormally long URL" before "IP-based URL" and "High entropy" before
  "Excessive subdomains". The code pushes them in another order: with every labelled
  rule firing, "IP-based URL" comes first and "Excessive subdomains" precedes
  "High entropy".
\<close>

theorem C4_table_order_counterexample:
  "initialCategories loudFeatures =
     [''IP-based URL'', ''Suspicious keywords'', ''Abnormally long URL'',
      ''Excessive subdomains'', ''High entropy'']
   \<and> tableOrderCategories loudFeatures =
     [''Abnormally long URL'', ''IP-based URL'', ''Suspicious keywords'',
      ''High entropy'', ''Excessive subdomains'']
   \<and> initialCategories loudFeatures \<noteq> tableOrderCategories loudFeatures"
  by (simp add: initialCategories_def tableOrderCategories_def label_def loudFeatures_def)

lemma if_append_label: "(if c then xs @ [n] else xs) = xs @ label c n"
  by (simp add: label_def)

lemma categories_as_labels:
  "initialCategories f =
       label (hasIpAddress f) ''IP-based URL''
     @ label (hasSuspiciousKeywords f) ''Suspicious keywords''
     @ label (urlLength f > 100) ''Abnormally long URL''
     @ label (subdomainCount f > 3) ''Excessive subdomains''
     @ label (entropyScore f > 4.5) ''High entropy''"
  by (simp add: initialCategories_def Let_def if_append_label)

text \<open>
  Claim C4, amended. For every feature set the labels produced are exactly the labels of
  the labelled rules that fired, each once, with no label for an unlabelled rule, in the
  order of the pushes in the code: "IP-based URL", "Suspicious keywords",
  "Abnormally long URL" (length above 100), "Excessive subdomains", "High entropy".
\<close>

theorem C4_categories_in_push_order:
  "initialCategories f =
       label (hasIpAddress f) ''IP-based URL''
     @ label (hasSuspiciousKeywords f) ''Suspicious keywords''
     @ label (urlLength f > 100) ''Abnormally long URL''
     @ label (subdomainCount f > 3) ''Excessive subdomains''
     @ label (entropyScore f > 4.5) ''High entropy''
   \<and> set (initialCategories f) = set (tableOrderCategories f)
   \<and> distinct (initialCategories f)"
proof -
  have shape: "initialCategories f =
       label (hasIpAddress f) ''IP-based URL''
     @ label (hasSuspiciousKeywords f) ''Suspicious keywords''
     @ label (urlLength f > 100) ''Abnormally long URL''
     @ label (subdomainCount f > 3) ''Excessive subdomains''
     @ label (entropyScore f > 4.5) ''High entropy''"
    by (rule categories_as_labels)
  have "set (initialCategories f) = set (tableOrderCategories f)"
    unfolding shape tableOrderCategories_def by (simp add: Un_ac)
  moreover have "distinct (initialCategories f)"
    unfolding shape by (simp add: label_def)
  ultimately show ?thesis using shape by blast
qed

theorem C4_categories_in_push_order_witness:
  "initialCategories (quietFeatures\<lparr>hasIpAddress := True, urlLength := 101\<rparr>)
     = [''IP-based URL'', ''Abnormally long URL'']"
  using C4_categories_in_push_order [of "quietFeatures\<lparr>hasIpAddress := True, urlLength := 101\<rparr>"]
  by (simp add: label_def quietFeatures_def)

section \<open>Properties of the entropy\<close>

lemma keys_bump: "fst ` set (bump c fr) = insert c (fst ` set fr)"
  by (induction c fr rule: bump.induct) auto

lemma distinct_bump: "distinct (map fst fr) \<Longrightarrow> distinct (map fst (bump c fr))"
proof (induction c fr rule: bump.induct)
  case (1 c)
  then show ?case by simp
next
  case (2 c k n fr)
  then show ?case
    using keys_bump [of c fr] by (auto simp: image_iff)
qed

lemma map_of_bump:
  "map_of (bump c fr) k =
     (if k = c then Some (case map_of fr c of None \<Rightarrow> 1 | Some n \<Rightarrow> n + 1) else map_of fr k)"
  by (induction c fr rule: bump.induct) auto

lemma keys_countChars: "fst ` set (countChars s fr) = set s \<union> fst ` set fr"
  by (induction s arbitrary: fr) (auto simp: keys_bump)

lemma distinct_countChars:
  "distinct (map fst fr) \<Longrightarrow> distinct (map fst (countChars s fr))"
  by (induction s arbitrary: fr) (auto simp: distinct_bump)

lemma freqOf_bump: "freqOf (bump c fr) k = freqOf fr k + (if k = c then 1 else 0)"
  by (simp add: freqOf_def map_of_bump split: option.splits)

lemma freqOf_countChars: "freqOf (countChars s fr) k = freqOf fr k + count_list s k"
  by (induction s arbitrary: fr) (auto simp: freqOf_bump)

lemma countChars_entry:
  assumes "(k, n) \<in> set (countChars s [])"
  shows "n = count_list s k"
proof -
  have "distinct (map fst (countChars s []))"
    by (simp add: distinct_countChars)
  with assms have "map_of (countChars s []) k = Some n"
    by simp
  then have "freqOf (countChars s []) k = n"
    by (simp add: freqOf_def)
  moreover have "freqOf (countChars s []) k = count_list s k"
    by (simp add: freqOf_countChars) (simp add: freqOf_def)
  ultimately show ?thesis by simp
qed

lemma fold_minus:
  "fold (\<lambda>(c, n) e. e - g n) fr (a::real) = a - sum_list (map (\<lambda>(c, n). g n) fr)"
  by (induction fr arbitrary: a) (auto)

lemma entropy_sum:
  "calculateEntropy s =
     - (\<Sum>c \<in> set s. (real (count_list s c) / real (length s))
                      * log 2 (real (count_list s c) / real (length s)))"
proof -
  let ?fr = "countChars s []"
  let ?g = "\<lambda>n. (real n / real (length s)) * log 2 (real n / real (length s))"
  have "calculateEntropy s = fold (\<lambda>(c, n) e. e - ?g n) ?fr 0"
    by (simp add: calculateEntropy_def Let_def)
  also have "\<dots> = - sum_list (map (\<lambda>(c, n). ?g n) ?fr)"
    by (simp add: fold_minus)
  also have "map (\<lambda>(c, n). ?g n) ?fr = map (\<lambda>c. ?g (count_list s c)) (map fst ?fr)"
    using countChars_entry [of _ _ s] by (auto)
  also have "sum_list (map (\<lambda>c. ?g (count_list s c)) (map fst ?fr))
      = (\<Sum>c \<in> set (map fst ?fr). ?g (count_list s c))"
    by (rule sum_list_distinct_conv_sum_set) (simp add: distinct_countChars)
  also have "set (map fst ?fr) = set s"
    using keys_countChars [of s "[]"] by simp
  finally show ?thesis .
qed

lemma count_pos: "c \<in> set s \<Longrightarrow> 0 < count_list s c"
  using count_list_0_iff [of s c] by (cases "count_list s c") auto

lemma plogp_nonpos: "0 < (p::real) \<Longrightarrow> p \<le> 1 \<Longrightarrow> p * log 2 p \<le> 0"
  by (simp add: mult_nonneg_nonpos)

lemma plogp_split:
  "0 < (k::real) \<Longrightarrow> 0 < n \<Longrightarrow>
     (k / n) * log 2 (k / n) = (k * log 2 k) / n - (k / n) * log 2 n"
  by (simp add: log_divide algebra_simps diff_divide_distrib)

lemma entropy_nonneg: "0 \<le> calculateEntropy s"
proof -
  have "(real (count_list s c) / real (length s))
          * log 2 (real (count_list s c) / real (length s)) \<le> 0" if "c \<in> set s" for c
  proof -
    have pos: "0 < count_list s c" using that by (rule count_pos)
    have le: "count_list s c \<le> length s" by (rule count_le_length)
    have len: "0 < length s" using pos le by linarith
    have "0 < real (count_list s c) / real (length s)"
      using pos len by simp
    moreover have "real (count_list s c) / real (length s) \<le> 1"
      using le len by simp
    ultimately show ?thesis
      by (rule plogp_nonpos)
  qed
  then have "(\<Sum>c \<in> set s. (real (count_list s c) / real (length s))
                      * log 2 (real (count_list s c) / real (length s))) \<le> 0"
    by (rule sum_nonpos)
  then show ?thesis by (simp add: entropy_sum)
qed

lemma repeated_char: "\<not> distinct s \<Longrightarrow> \<exists>c \<in> set s. 2 \<le> count_list s c"
proof (induction s)
  case Nil
  then show ?case by simp
next
  case (Cons a s)
  show ?case
  proof (cases "a \<in> set s")
    case True
    then have "0 < count_list s a" by (rule count_pos)
    then have "2 \<le> count_list (a # s) a" by simp
    then show ?thesis by (intro bexI [of _ a]) simp_all
  next
    case False
    with Cons.prems have "\<not> distinct s" by simp
    then obtain c where c: "c \<in> set s" "2 \<le> count_list s c"
      using Cons.IH by blast
    then have "2 \<le> count_list (a # s) c" by simp
    with c(1) show ?thesis by (intro bexI [of _ c]) simp_all
  qed
qed

lemma entropy_as_deficit:
  assumes "s \<noteq> []"
  shows "calculateEntropy s =
     log 2 (real (length s))
       - (\<Sum>c \<in> set s. real (count_list s c) * log 2 (real (count_list s c))) / real (length s)"
proof -
  let ?n = "real (length s)"
  have n: "0 < ?n" using assms by simp
  have piece: "(real (count_list s c) / ?n) * log 2 (real (count_list s c) / ?n)
      = (real (count_list s c) * log 2 (real (count_list s c))) / ?n
        - (real (count_list s c) / ?n) * log 2 ?n" if "c \<in> set s" for c
  proof -
    have "0 < real (count_list s c)" using count_pos [OF that] by simp
    then show ?thesis using n by (rule plogp_split)
  qed
  have "(\<Sum>c \<in> set s. (real (count_list s c) / ?n) * log 2 (real (count_list s c) / ?n))
      = (\<Sum>c \<in> set s. (real (count_list s c) * log 2 (real (count_list s c))) / ?n
                        - (real (count_list s c) / ?n) * log 2 ?n)"
    using piece by (intro sum.cong refl) blast
  also have "\<dots> = (\<Sum>c \<in> set s. real (count_list s c) * log 2 (real (count_list s c))) / ?n
                 - (\<Sum>c \<in> set s. real (count_list s c)) / ?n * log 2 ?n"
    by (simp add: sum_subtractf sum_divide_distrib sum_distrib_right)
  also have "(\<Sum>c \<in> set s. real (count_list s c)) = ?n"
    using sum_count_set [of s "set s"] by (simp flip: of_nat_sum)
  finally show ?thesis
    using n by (simp add: entropy_sum)
qed

lemma entropy_below_log:
  assumes "s \<noteq> []" "\<not> distinct s"
  shows "calculateEntropy s < log 2 (real (length s))"
proof -
  obtain c where c: "c \<in> set s" "2 \<le> count_list s c"
    using repeated_char [OF assms(2)] by blast
  have nonneg: "0 \<le> real (count_list s d) * log 2 (real (count_list s d))" if "d \<in> set s" for d
  proof -
    have "1 \<le> real (count_list s d)" using count_pos [OF that] by simp
    then show ?thesis by simp
  qed
  have "0 < real (count_list s c) * log 2 (real (count_list s c))"
    using c(2) by simp
  then have "0 < (\<Sum>d \<in> set s. real (count_list s d) * log 2 (real (count_list s d)))"
    using c(1) nonneg by (meson List.finite_set sum_pos2)
  then have "0 < (\<Sum>d \<in> set s. real (count_list s d) * log 2 (real (count_list s d))) / real (length s)"
    using assms(1) by simp
  then show ?thesis
    by (simp add: entropy_as_deficit [OF assms(1)])
qed

lemma entropyScore_extract:
  "entropyScore (extractMLFeatures parseHostname url) = calculateEntropy url"
  by (simp add: extractMLFeatures_def Let_def)

text \<open>
  Claim C5. For every input string the entropy feature is the entropy of the whole string,
  and \<open>calculateEntropy\<close> is the Shannon entropy in bits of its character frequencies:
  minus the sum, over the distinct characters \<open>c\<close>, of \<open>p c * log 2 (p c)\<close> where
  \<open>p c\<close> is the number of occurrences of \<open>c\<close> divided by the length. It is 0 for the
  empty string, never negative, and strictly below \<open>log 2\<close> of the length for a
  non-empty string in which some character occurs twice.
\<close>

theorem C5_entropy_is_shannon:
  "entropyScore (extractMLFeatures parseHostname s) = calculateEntropy s
   \<and> calculateEntropy s =
       - (\<Sum>c \<in> set s. (real (count_list s c) / real (length s))
                        * log 2 (real (count_list s c) / real (length s)))
   \<and> calculateEntropy ([] :: string) = 0
   \<and> 0 \<le> calculateEntropy s
   \<and> (s \<noteq> [] \<and> \<not> distinct s \<longrightarrow> calculateEntropy s < log 2 (real (length s)))"
proof -
  have "calculateEntropy ([] :: string) = 0"
    by (simp add: calculateEntropy_def)
  then show ?thesis
    using entropy_sum [of s] entropy_nonneg [of s] entropy_below_log [of s]
      entropyScore_extract [of parseHostname s]
    by blast
qed

theorem C5_entropy_is_shannon_witness:
  "''aa'' \<noteq> [] \<and> \<not> distinct ''aa''
   \<and> calculateEntropy ''aa'' < log 2 (real (length ''aa''))
   \<and> calculateEntropy ''aa'' = 0"
proof -
  have "calculateEntropy ''aa'' = 0"
    by (simp add: calculateEntropy_def)
  then show ?thesis
    using C5_entropy_is_shannon [where parseHostname = sampleHostname and s = "''aa''"]
    by simp
qed

section \<open>Properties of the blending and of the classification\<close>

text \<open>
  Claim C2. For every raw probability and every result of the historical lookup: without
  a historical record the returned probability is the raw probability and the confidence
  is 0.75; with a record the probability is the mean of the raw probability and the
  record's confidence score, the confidence is 0.90, and "Known phishing pattern" is
  appended exactly when the record's pattern type is phishing; in both cases
  \<open>isPhishing\<close> holds exactly when the returned probability is above 0.5, so a
  probability of exactly 0.5 gives \<open>False\<close>.
\<close>

theorem C2_blend:
  "(h = None \<longrightarrow>
      threatProbability (blendWithHistory p cats h) = p
    \<and> confidence (blendWithHistory p cats h) = 0.75
    \<and> predictedCategories (blendWithHistory p cats h) = cats)
   \<and> (\<forall>r. h = Some r \<longrightarrow>
      threatProbability (blendWithHistory p cats h) = (p + confidence_score r) / 2
    \<and> confidence (blendWithHistory p cats h) = 0.90
    \<and> predictedCategories (blendWithHistory p cats h) =
        (if pattern_type r = phishing then cats @ [''Known phishing pattern''] else cats))
   \<and> isPhishing (blendWithHistory p cats h) = (threatProbability (blendWithHistory p cats h) > 0.5)
   \<and> (threatProbability (blendWithHistory p cats h) = 0.5 \<longrightarrow> \<not> isPhishing (blendWithHistory p cats h))"
  by (cases h) (auto simp: blendWithHistory_def Let_def)

theorem C2_blend_witness:
  "threatProbability (blendWithHistory 0.5 [] None) = 0.5
   \<and> \<not> isPhishing (blendWithHistory 0.5 [] None)
   \<and> confidence (blendWithHistory 0.5 [] None) = 0.75
   \<and> threatProbability (blendWithHistory 0.5 [] (Some sampleRow)) = 0.4
   \<and> confidence (blendWithHistory 0.5 [] (Some sampleRow)) = 0.9
   \<and> \<not> isPhishing (blendWithHistory 0.5 [] (Some sampleRow))"
  using C2_blend [where h = None and p = "0.5" and cats = "[]"]
    C2_blend [where h = "Some sampleRow" and p = "0.5" and cats = "[]"]
  by (simp add: sampleRow_def)

lemma score_dots: "calculateMLThreatScore (f\<lparr>numDots := d\<rparr>) = calculateMLThreatScore f"
  by (simp add: score_as_sum otherPoints_def)

lemma categories_dots: "initialCategories (f\<lparr>numDots := d\<rparr>) = initialCategories f"
  by (simp add: categories_as_labels)

text \<open>
  Claim C10. Two feature sets that differ in the dot count only (the second is the first
  with another \<open>numDots\<close>) get the same score and the same labels, hence the same
  assessment for any historical record, and in particular the same phishing decision.
\<close>

theorem C10_dot_count_ignored:
  "calculateMLThreatScore (f\<lparr>numDots := d\<rparr>) = calculateMLThreatScore f
   \<and> initialCategories (f\<lparr>numDots := d\<rparr>) = initialCategories f
   \<and> blendWithHistory (real_of_int (calculateMLThreatScore (f\<lparr>numDots := d\<rparr>)) / 100)
        (initialCategories (f\<lparr>numDots := d\<rparr>)) h
     = blendWithHistory (real_of_int (calculateMLThreatScore f) / 100) (initialCategories f) h"
  by (simp add: score_dots categories_dots)

theorem C10_dot_count_ignored_witness:
  "calculateMLThreatScore (loudFeatures\<lparr>numDots := 0\<rparr>) = 100
   \<and> calculateMLThreatScore (quietFeatures\<lparr>numDots := 50\<rparr>) = 0"
proof -
  have "calculateMLThreatScore loudFeatures = 100"
    by (simp add: calculateMLThreatScore_def loudFeatures_def)
  moreover have "calculateMLThreatScore quietFeatures = 0"
    by (simp add: calculateMLThreatScore_def quietFeatures_def)
  ultimately show ?thesis
    using C10_dot_count_ignored [where f = loudFeatures and d = 0 and h = None]
      C10_dot_count_ignored [where f = quietFeatures and d = 50 and h = None]
    by simp
qed

section \<open>Properties of the pattern store\<close>

lemma filter_unique_key:
  "distinct (map f xs) \<Longrightarrow> x \<in> set xs \<Longrightarrow> filter (\<lambda>y. f y = f x) xs = [x]"
proof (induction xs)
  case Nil
  then show ?case by simp
next
  case (Cons a xs)
  show ?case
  proof (cases "a = x")
    case True
    with Cons.prems have "\<forall>y \<in> set xs. f y \<noteq> f x" by (auto simp: image_iff)
    then have "filter (\<lambda>y. f y = f x) xs = []" by (simp add: filter_empty_conv)
    with True show ?thesis by simp
  next
    case False
    with Cons.prems have "x \<in> set xs" "f a \<noteq> f x" by (auto simp: image_iff)
    with Cons show ?thesis by simp
  qed
qed

lemma map_unique_key:
  "distinct (map f xs) \<Longrightarrow> x \<in> set xs \<Longrightarrow>
     map (\<lambda>y. if f y = f x then g y else y) xs = map (\<lambda>y. if y = x then g y else y) xs"
  by (rule map_cong) (auto simp: distinct_map dest: inj_onD)

lemma maybeSingle_one: "maybeSingle [r] = Some r"
  by (simp add: maybeSingle_def)

lemma maybeSingle_none: "maybeSingle [] = None"
  by (simp add: maybeSingle_def)

lemma update_single:
  assumes "selectCall env = Performed" "writeCall env = Performed"
    and "distinct (map row_id (ml_patterns db))"
    and "filter (\<lambda>r. url_pattern r = domain) (ml_patterns db) = [e]"
  shows "ml_patterns (updateMLPatterns env domain features b db) =
     map (\<lambda>r. if r = e then updatedRow env features b e e else r) (ml_patterns db)"
proof -
  have "e \<in> set (filter (\<lambda>r. url_pattern r = domain) (ml_patterns db))"
    by (simp only: assms(4)) simp
  then have mem: "e \<in> set (ml_patterns db)" by simp
  have "ml_patterns (updateMLPatterns env domain features b db) =
     map (\<lambda>r. if row_id r = row_id e then updatedRow env features b e r else r) (ml_patterns db)"
    using assms(1,2,4) by (simp add: updateMLPatterns_def Let_def maybeSingle_one)
  also have "\<dots> = map (\<lambda>r. if r = e then updatedRow env features b e r else r) (ml_patterns db)"
    using map_unique_key [OF assms(3) mem, of "updatedRow env features b e"] .
  also have "\<dots> = map (\<lambda>r. if r = e then updatedRow env features b e e else r) (ml_patterns db)"
    by (rule map_cong) auto
  finally show ?thesis .
qed

lemma update_existing:
  assumes "selectCall env = Performed" "writeCall env = Performed"
    and "distinct (map url_pattern (ml_patterns db))" "distinct (map row_id (ml_patterns db))"
    and "e \<in> set (ml_patterns db)" "url_pattern e = domain"
  shows "ml_patterns (updateMLPatterns env domain features b db) =
     map (\<lambda>r. if r = e then updatedRow env features b e e else r) (ml_patterns db)"
proof -
  have "filter (\<lambda>r. url_pattern r = domain) (ml_patterns db) = [e]"
    using filter_unique_key [OF assms(3) assms(5)] assms(6) by simp
  then show ?thesis
    by (rule update_single [OF assms(1,2,4)])
qed

lemma insert_absent:
  assumes "selectCall env = Performed" "writeCall env = Performed"
    and "\<forall>r \<in> set (ml_patterns db). url_pattern r \<noteq> domain"
  shows "ml_patterns (updateMLPatterns env domain features b db) =
     ml_patterns db @ [insertedRow env domain
        (if b > 0.7 then phishing else if b > 0.4 then suspicious else legitimate) features b]"
proof -
  have "filter (\<lambda>r. url_pattern r = domain) (ml_patterns db) = []"
    using assms(3) by (simp add: filter_empty_conv)
  then show ?thesis
    using assms(1,2) by (simp add: updateMLPatterns_def Let_def maybeSingle_none)
qed


text \<open>
  On a table in which \<open>url_pattern\<close> is unique, an upsert whose select and write are
  performed keeps it unique.
\<close>

lemma url_patterns_kept:
  assumes "selectCall env = Performed" "writeCall env = Performed"
    and "distinct (map url_pattern (ml_patterns db))" "distinct (map row_id (ml_patterns db))"
  shows "distinct (map url_pattern (ml_patterns (updateMLPatterns env domain features b db)))"
proof (cases "\<exists>e \<in> set (ml_patterns db). url_pattern e = domain")
  case True
  then obtain e where e: "e \<in> set (ml_patterns db)" "url_pattern e = domain" by blast
  have "map url_pattern (map (\<lambda>r. if r = e then updatedRow env features b e e else r) xs)
      = map url_pattern xs" for xs
    by (induction xs) (simp_all add: updatedRow_def)
  then have "map url_pattern (ml_patterns (updateMLPatterns env domain features b db))
      = map url_pattern (ml_patterns db)"
    by (simp only: update_existing [OF assms e])
  then show ?thesis
    using assms(3) by simp
next
  case False
  then have absent: "\<forall>r \<in> set (ml_patterns db). url_pattern r \<noteq> domain" by blast
  show ?thesis
    using insert_absent [OF assms(1,2) absent] assms(3) absent
    by (auto simp: insertedRow_def image_iff)
qed




section \<open>Properties of the feature extraction\<close>

lemma splitOn_nonempty: "splitOn sep s \<noteq> []"
  by (induction s) (auto split: list.splits)

lemma length_splitOn: "length (splitOn sep s) = Suc (count_list s sep)"
  by (induction s) (auto split: list.splits)

lemma hd_splitOn: "hd (splitOn sep s) = takeWhile (\<lambda>c. c \<noteq> sep) s"
  by (induction s) (auto simp: splitOn_nonempty split: list.splits)

lemma startsWith_take: "startsWith s p = (take (length p) s = p)"
  by (induction s p rule: startsWith.induct) auto

lemma matchAt_Lit:
  "matchAt (Lit c # items) s = (\<exists>t. s = c # t \<and> matchAt items t)"
  by (cases s) auto

lemma matchAt_Digits:
  "matchAt (Digits lo hi # items) s =
     (\<exists>a t. s = a @ t \<and> lo \<le> length a \<and> length a \<le> hi \<and> list_all isDigit a \<and> matchAt items t)"
proof
  assume "matchAt (Digits lo hi # items) s"
  then obtain k where k: "lo \<le> k" "k \<le> hi" "k \<le> length s"
      "list_all isDigit (take k s)" "matchAt items (drop k s)"
    by (auto simp: list_ex_iff)
  have "s = take k s @ drop k s" by simp
  moreover have "length (take k s) = k" using k(3) by simp
  ultimately show "\<exists>a t. s = a @ t \<and> lo \<le> length a \<and> length a \<le> hi \<and> list_all isDigit a \<and> matchAt items t"
    using k by metis
next
  assume "\<exists>a t. s = a @ t \<and> lo \<le> length a \<and> length a \<le> hi \<and> list_all isDigit a \<and> matchAt items t"
  then obtain a t where "s = a @ t" "lo \<le> length a" "length a \<le> hi" "list_all isDigit a" "matchAt items t"
    by blast
  then show "matchAt (Digits lo hi # items) s"
    by (auto simp: list_ex_iff intro!: bexI [of _ "length a"])
qed

lemma regexTest_iff: "regexTest items s = (\<exists>pre t. s = pre @ t \<and> matchAt items t)"
proof (induction s)
  case Nil
  then show ?case by simp
next
  case (Cons c cs)
  show ?case
  proof
    assume "regexTest items (c # cs)"
    then consider "matchAt items (c # cs)" | "regexTest items cs" by auto
    then show "\<exists>pre t. c # cs = pre @ t \<and> matchAt items t"
    proof cases
      case 1
      then show ?thesis by (intro exI [of _ "[]"] exI [of _ "c # cs"]) simp
    next
      case 2
      then obtain pre t where "cs = pre @ t" "matchAt items t" using Cons.IH by blast
      then show ?thesis by (intro exI [of _ "c # pre"] exI [of _ t]) simp
    qed
  next
    assume "\<exists>pre t. c # cs = pre @ t \<and> matchAt items t"
    then obtain pre t where pt: "c # cs = pre @ t" "matchAt items t" by blast
    show "regexTest items (c # cs)"
    proof (cases pre)
      case Nil
      with pt have "matchAt items (c # cs)" by simp
      then show ?thesis by simp
    next
      case (Cons x pre')
      with pt have "cs = pre' @ t" by simp
      with pt(2) have "regexTest items cs" using Cons.IH by blast
      then show ?thesis by simp
    qed
  qed
qed


lemma matchAt_octet_dot:
  "matchAt (Digits 1 3 # Lit CHR ''.'' # items) s =
     (\<exists>a t. s = a @ ''.'' @ t \<and> octet a \<and> matchAt items t)"
  unfolding matchAt_Digits matchAt_Lit octet_def by auto

lemma matchAt_octet_end:
  "matchAt [Digits 1 3] s = (\<exists>d post. s = d @ post \<and> octet d)"
  unfolding matchAt_Digits octet_def by auto

lemma matchAt_ipPattern:
  "matchAt ipPattern t =
     (\<exists>a b c d post. t = a @ ''.'' @ b @ ''.'' @ c @ ''.'' @ d @ post
        \<and> octet a \<and> octet b \<and> octet c \<and> octet d)"
  unfolding ipPattern_def matchAt_octet_dot matchAt_octet_end
  by blast

lemma regexTest_ipPattern:
  "regexTest ipPattern s =
     (\<exists>pre a b c d post. s = pre @ a @ ''.'' @ b @ ''.'' @ c @ ''.'' @ d @ post
        \<and> octet a \<and> octet b \<and> octet c \<and> octet d)"
  unfolding regexTest_iff matchAt_ipPattern
  by blast

lemma pathDepth_extract:
  "pathDepth (extractMLFeatures parseHostname url) = max 0 (int (length (splitOn CHR ''/'' url)) - 3)"
  by (simp add: extractMLFeatures_def Let_def)

lemma subdomainCount_extract:
  "subdomainCount (extractMLFeatures parseHostname url) =
     max 0 (int (length (splitOn CHR ''.'' (hostnameOf parseHostname url))) - 2)"
  by (simp add: extractMLFeatures_def Let_def)

lemma hasIpAddress_extract:
  "hasIpAddress (extractMLFeatures parseHostname url) = regexTest ipPattern url"
  by (simp add: extractMLFeatures_def Let_def)

lemma hostnameOf_parsed:
  "parseHostname (parseInput url) = Some h \<Longrightarrow> hostnameOf parseHostname url = h"
  by (simp add: hostnameOf_def)

lemma hostnameOf_fallback:
  "parseHostname (parseInput url) = None \<Longrightarrow>
     hostnameOf parseHostname url = takeWhile (\<lambda>c. c \<noteq> CHR ''/'') url"
  by (simp add: hostnameOf_def hd_splitOn)

text \<open>
  Claim C7, as the specification states it: the path depth is \<open>max 0 (n - 2)\<close> where
  \<open>n\<close> counts the path segments after the scheme and the host are removed. For
  \<^verbatim>\<open>https://example.com/a/b\<close> the path \<^verbatim>\<open>/a/b\<close> has two segments, or three pieces
  with the empty piece before the leading slash, so the claim gives 0 or 1; the code
  returns 2.
\<close>

theorem C7_path_depth_counterexample:
  "pathDepth (extractMLFeatures sampleHostname ''https://example.com/a/b'') = 2
   \<and> specPath ''https://example.com/a/b'' = ''/a/b''
   \<and> max 0 (specPathSegments ''https://example.com/a/b'' - 2) = 0
   \<and> max 0 (specPathPieces ''https://example.com/a/b'' - 2) = 1"
  by (simp add: pathDepth_extract specPathSegments_def specPathPieces_def specPath_def)

text \<open>
  Claim C7, amended. For every input string the path depth is \<open>max 0 (k - 3)\<close> where
  \<open>k\<close> is the number of pieces of the whole raw input between its slashes, scheme and
  host counted among them: the number of slashes less 2, and not below 0. For an input
  that starts with \<^verbatim>\<open>https://\<close> this is the number of slashes after the scheme. The
  subdomain count is \<open>max 0 (m - 2)\<close> where \<open>m\<close> is the number of dot-separated labels
  of the host, one more than the number of its dots.
\<close>

theorem C7_counts_amended:
  "pathDepth (extractMLFeatures parseHostname url)
     = max 0 (int (length (splitOn CHR ''/'' url)) - 3)
   \<and> pathDepth (extractMLFeatures parseHostname url)
     = max 0 (int (count_list url CHR ''/'') - 2)
   \<and> pathDepth (extractMLFeatures parseHostname (''https://'' @ rest))
     = int (count_list rest CHR ''/'')
   \<and> subdomainCount (extractMLFeatures parseHostname url)
     = max 0 (int (length (splitOn CHR ''.'' (hostnameOf parseHostname url))) - 2)
   \<and> subdomainCount (extractMLFeatures parseHostname url)
     = max 0 (int (count_list (hostnameOf parseHostname url) CHR ''.'') + 1 - 2)"
  by (simp add: pathDepth_extract subdomainCount_extract length_splitOn)

theorem C7_counts_amended_witness:
  "pathDepth (extractMLFeatures sampleHostname ''https://example.com/a/b'') = 2
   \<and> hostnameOf sampleHostname ''https://example.com/a/b'' = ''example.com''
   \<and> subdomainCount (extractMLFeatures sampleHostname ''https://example.com/a/b'') = 0"
proof -
  have host: "hostnameOf sampleHostname ''https://example.com/a/b'' = ''example.com''"
    by (simp add: hostnameOf_def parseInput_def sampleHostname_def)
  show ?thesis
    using C7_counts_amended [where parseHostname = sampleHostname
        and url = "''https://example.com/a/b''" and rest = "''example.com/a/b''"]
    by (simp add: host)
qed

text \<open>
  Claim C6, as the specification states it, fails in three places. An address that
  appears in the path only sets \<open>hasIpAddress\<close>: the pattern is tested on the whole
  input, not on the host. An input that does not parse, such as \<^verbatim>\<open>1.2.3.4 x\<close> (a host
  with a space), still gets a subdomain count from the fallback host, here 2, and
  \<open>hasIpAddress = True\<close>. And the prefix \<^verbatim>\<open>https://\<close> is added whenever the input does
  not start with \<^verbatim>\<open>http\<close>, also when a scheme is present.
\<close>

theorem C6_host_counterexample:
  "hasIpAddress (extractMLFeatures sampleHostname ''https://example.com/1.2.3.4'')
   \<and> hostnameOf sampleHostname ''https://example.com/1.2.3.4'' = ''example.com''
   \<and> \<not> regexTest ipPattern ''example.com''
   \<and> sampleHostname (parseInput ''1.2.3.4 x'') = None
   \<and> subdomainCount (extractMLFeatures sampleHostname ''1.2.3.4 x'') = 2
   \<and> hasIpAddress (extractMLFeatures sampleHostname ''1.2.3.4 x'')
   \<and> parseInput ''ftp://example.com'' = ''https://ftp://example.com''"
proof -
  have "regexTest ipPattern ''https://example.com/1.2.3.4''" by code_simp
  moreover have "\<not> regexTest ipPattern ''example.com''" by code_simp
  moreover have "regexTest ipPattern ''1.2.3.4 x''" by code_simp
  moreover have "hostnameOf sampleHostname ''https://example.com/1.2.3.4'' = ''example.com''"
    by (simp add: hostnameOf_def parseInput_def sampleHostname_def)
  moreover have "sampleHostname (parseInput ''1.2.3.4 x'') = None"
    by (simp add: parseInput_def sampleHostname_def)
  moreover have "subdomainCount (extractMLFeatures sampleHostname ''1.2.3.4 x'') = 2"
    by (simp add: subdomainCount_extract hostnameOf_def parseInput_def sampleHostname_def)
  moreover have "parseInput ''ftp://example.com'' = ''https://ftp://example.com''"
    by (simp add: parseInput_def)
  ultimately show ?thesis
    by (simp only: hasIpAddress_extract simp_thms)
qed

text \<open>
  Claim C6, amended. For every input string the extractor determines the host, from
  which it counts the subdomains, by parsing the input as a URL after prefixing
  \<^verbatim>\<open>https://\<close> when the input does not start with \<^verbatim>\<open>http\<close>, and falls back to the
  part of the input before its first slash when parsing fails. \<open>hasIpAddress\<close> holds
  exactly when the whole raw input contains, anywhere (host, path or query), four runs of
  one to three digits separated by single dots. For an input that fails to parse the
  extractor does not fail: the subdomain count is \<open>max 0 (m - 2)\<close> for the \<open>m\<close> labels
  of the fallback host, and \<open>hasIpAddress\<close> is decided on the raw input as before.
\<close>

theorem C6_host_amended:
  "parseInput url = (if take 4 url = ''http'' then url else ''https://'' @ url)
   \<and> (\<forall>h. parseHostname (parseInput url) = Some h \<longrightarrow> hostnameOf parseHostname url = h)
   \<and> (parseHostname (parseInput url) = None \<longrightarrow>
        hostnameOf parseHostname url = takeWhile (\<lambda>c. c \<noteq> CHR ''/'') url
      \<and> subdomainCount (extractMLFeatures parseHostname url)
          = max 0 (int (count_list (takeWhile (\<lambda>c. c \<noteq> CHR ''/'') url) CHR ''.'') + 1 - 2))
   \<and> subdomainCount (extractMLFeatures parseHostname url)
       = max 0 (int (length (splitOn CHR ''.'' (hostnameOf parseHostname url))) - 2)
   \<and> hasIpAddress (extractMLFeatures parseHostname url)
       = (\<exists>pre a b c d post. url = pre @ a @ ''.'' @ b @ ''.'' @ c @ ''.'' @ d @ post
            \<and> octet a \<and> octet b \<and> octet c \<and> octet d)"
proof -
  have "parseInput url = (if take 4 url = ''http'' then url else ''https://'' @ url)"
    by (simp add: parseInput_def startsWith_take eval_nat_numeral)
  moreover have "parseHostname (parseInput url) = None \<longrightarrow>
        hostnameOf parseHostname url = takeWhile (\<lambda>c. c \<noteq> CHR ''/'') url
      \<and> subdomainCount (extractMLFeatures parseHostname url)
          = max 0 (int (count_list (takeWhile (\<lambda>c. c \<noteq> CHR ''/'') url) CHR ''.'') + 1 - 2)"
    by (simp add: subdomainCount_extract hostnameOf_fallback length_splitOn)
  moreover have "hasIpAddress (extractMLFeatures parseHostname url)
       = (\<exists>pre a b c d post. url = pre @ a @ ''.'' @ b @ ''.'' @ c @ ''.'' @ d @ post
            \<and> octet a \<and> octet b \<and> octet c \<and> octet d)"
    by (simp only: hasIpAddress_extract regexTest_ipPattern)
  ultimately show ?thesis
    using hostnameOf_parsed [of parseHostname url] subdomainCount_extract [of parseHostname url]
    by blast
qed

theorem C6_host_amended_witness:
  "sampleHostname (parseInput ''1.2.3.4 x'') = None
   \<and> hostnameOf sampleHostname ''1.2.3.4 x'' = ''1.2.3.4 x''
   \<and> subdomainCount (extractMLFeatures sampleHostname ''1.2.3.4 x'') = 2
   \<and> sampleHostname (parseInput ''https://example.com/a/b'') = Some ''example.com''
   \<and> hostnameOf sampleHostname ''https://example.com/a/b'' = ''example.com''"
proof -
  have fail: "sampleHostname (parseInput ''1.2.3.4 x'') = None"
    by (simp add: parseInput_def sampleHostname_def)
  have ok: "sampleHostname (parseInput ''https://example.com/a/b'') = Some ''example.com''"
    by (simp add: parseInput_def sampleHostname_def)
  show ?thesis
    using C6_host_amended [where parseHostname = sampleHostname and url = "''1.2.3.4 x''"]
      C6_host_amended [where parseHostname = sampleHostname and url = "''https://example.com/a/b''"]
      fail ok
    by simp
qed

subsection \<open>Two URLs, evaluated\<close>

lemma counts_extract:
  "urlLength (extractMLFeatures parseHostname url) = int (length url)"
  "numHyphens (extractMLFeatures parseHostname url) = int (length (filter (\<lambda>c. c = CHR ''-'') url))"
  "numDigits (extractMLFeatures parseHostname url) = int (length (filter isDigit url))"
  "numSpecialChars (extractMLFeatures parseHostname url) = int (length (filter (\<lambda>c. \<not> isPlain c) url))"
  "hasSuspiciousKeywords (extractMLFeatures parseHostname url) =
     list_ex (\<lambda>k. stringIncludes (toLowerCase url) k) suspiciousKeywords"
  by (simp_all add: extractMLFeatures_def Let_def)

lemma log_19: "log 2 19 < 4.5"
proof -
  have a: "log 2 361 = 2 * log 2 19"
    using log_nat_power [of "19::real" 2 2] by simp
  have b: "log 2 512 = (9::real)"
    using log_nat_power [of "2::real" 2 9] by simp
  have "log 2 361 < log 2 (512::real)"
    by simp
  then show ?thesis using a b by simp
qed

lemma plain_entropy: "\<not> (4.5 < calculateEntropy ''https://example.com'')"
proof -
  have "calculateEntropy ''https://example.com'' < log 2 (real (length ''https://example.com''))"
    by (rule entropy_below_log) simp_all
  then show ?thesis using log_19 by simp
qed

lemma plain_features:
  "calculateMLThreatScore (extractMLFeatures sampleHostname ''https://example.com'') = 0"
  "initialCategories (extractMLFeatures sampleHostname ''https://example.com'') = []"
proof -
  let ?f = "extractMLFeatures sampleHostname ''https://example.com''"
  have len: "urlLength ?f = 19"
    unfolding counts_extract by simp
  have hy: "numHyphens ?f = 0"
    unfolding counts_extract by simp
  have dg: "numDigits ?f = 0"
    unfolding counts_extract by code_simp
  have sp: "numSpecialChars ?f = 3"
    unfolding counts_extract by code_simp
  have ip: "\<not> hasIpAddress ?f"
    unfolding hasIpAddress_extract by code_simp
  have kw: "\<not> hasSuspiciousKeywords ?f"
    unfolding counts_extract by code_simp
  have en: "\<not> (4.5 < entropyScore ?f)"
    unfolding entropyScore_extract by (rule plain_entropy)
  have host: "hostnameOf sampleHostname ''https://example.com'' = ''example.com''"
    by (simp add: hostnameOf_def parseInput_def sampleHostname_def)
  have sub: "subdomainCount ?f = 0"
    unfolding subdomainCount_extract host by simp
  have pd: "pathDepth ?f = 0"
    unfolding pathDepth_extract by simp
  show "calculateMLThreatScore ?f = 0"
    unfolding score_as_sum otherPoints_def points_def
    using en by (simp only: len hy dg sp ip kw sub pd) simp
  show "initialCategories ?f = []"
    unfolding categories_as_labels label_def
    using en by (simp only: len ip kw sub) simp
qed

text \<open>
  The first scenario of the specification: an address as host and three of the keywords
  give at least 45 points and both labels.
\<close>

lemma ip_login_features:
  "hasIpAddress (extractMLFeatures sampleHostname ''http://192.168.1.1/login-verify-account'')"
  "hasSuspiciousKeywords (extractMLFeatures sampleHostname ''http://192.168.1.1/login-verify-account'')"
  "45 \<le> calculateMLThreatScore (extractMLFeatures sampleHostname ''http://192.168.1.1/login-verify-account'')"
  "''IP-based URL'' \<in> set (initialCategories (extractMLFeatures sampleHostname ''http://192.168.1.1/login-verify-account''))"
  "''Suspicious keywords'' \<in> set (initialCategories (extractMLFeatures sampleHostname ''http://192.168.1.1/login-verify-account''))"
proof -
  let ?f = "extractMLFeatures sampleHostname ''http://192.168.1.1/login-verify-account''"
  show ip: "hasIpAddress ?f"
    unfolding hasIpAddress_extract by code_simp
  show kw: "hasSuspiciousKeywords ?f"
    unfolding counts_extract by code_simp
  have "0 \<le> points (numHyphens ?f > 2) 10 + points (numDigits ?f > 8) 10
          + points (numSpecialChars ?f > 5) 15 + points (entropyScore ?f > 4.5) 15
          + points (subdomainCount ?f > 3) 15 + points (pathDepth ?f > 5) 10"
    by (intro add_nonneg_nonneg) (simp_all add: points_def)
  then have "45 \<le> otherPoints ?f"
    using ip kw by (simp add: otherPoints_def) (simp add: points_def)
  moreover have "0 \<le> points (urlLength ?f > 75) 15 + points (urlLength ?f > 100) 10"
    by (simp add: points_def)
  ultimately show "45 \<le> calculateMLThreatScore ?f"
    by (simp add: score_as_sum)
  show "''IP-based URL'' \<in> set (initialCategories ?f)"
    using ip by (simp add: categories_as_labels label_def)
  show "''Suspicious keywords'' \<in> set (initialCategories ?f)"
    using kw by (simp add: categories_as_labels label_def)
qed

section \<open>The classification never fails\<close>

lemma probability_range:
  "0 \<le> real_of_int (calculateMLThreatScore f) / 100 \<and> real_of_int (calculateMLThreatScore f) / 100 \<le> 1"
proof -
  have "0 \<le> points (urlLength f > 75) 15 + points (urlLength f > 100) 10 + otherPoints f"
    using otherPoints_nonneg [of f] by (simp add: points_def)
  then have "0 \<le> calculateMLThreatScore f \<and> calculateMLThreatScore f \<le> 100"
    by (simp add: score_as_sum)
  then show ?thesis by simp
qed

lemma blend_wellFormed:
  assumes "0 \<le> p" "p \<le> 1"
    and "\<forall>r. h = Some r \<longrightarrow> 0 \<le> confidence_score r \<and> confidence_score r \<le> 1"
  shows "wellFormed (blendWithHistory p cats h)"
  using assms by (cases h) (auto simp: wellFormed_def blendWithHistory_def Let_def)

lemma classification_result:
  "fst (performMLClassification parseHostname env url domain db) =
     blendWithHistory (real_of_int (calculateMLThreatScore (extractMLFeatures parseHostname url)) / 100)
       (initialCategories (extractMLFeatures parseHostname url))
       (checkHistoricalPatterns (historyQuery env))"
  by (simp add: performMLClassification_def Let_def)

text \<open>
  Claim C9. For every input string the classification returns an assessment (the model is
  a total function, and the object of the outer \<^verbatim>\<open>catch\<close> is well formed too): the
  score lies in [0,100]; the probability and the confidence lie in [0,1], given that a
  row returned by the lookup obeys the table's check, a confidence score in [0,1]. When
  the lookup throws or finds nothing, the result is the one for absent data: the raw
  probability, confidence 0.75, the initial labels. The assessment depends on the
  environment through the lookup alone: neither the fate of the three store calls of the
  update nor the store itself changes it.
\<close>

theorem C9_classification_absorbs_failures:
  "((\<forall>r. historyQuery env = Resolved (Some r) \<longrightarrow> 0 \<le> confidence_score r \<and> confidence_score r \<le> 1)
      \<longrightarrow> wellFormed (fst (performMLClassification parseHostname env url domain db)))
   \<and> 0 \<le> calculateMLThreatScore (extractMLFeatures parseHostname url)
   \<and> calculateMLThreatScore (extractMLFeatures parseHostname url) \<le> 100
   \<and> (historyQuery env = Rejected \<or> historyQuery env = Resolved None \<longrightarrow>
        threatProbability (fst (performMLClassification parseHostname env url domain db))
          = real_of_int (calculateMLThreatScore (extractMLFeatures parseHostname url)) / 100
      \<and> confidence (fst (performMLClassification parseHostname env url domain db)) = 0.75
      \<and> predictedCategories (fst (performMLClassification parseHostname env url domain db))
          = initialCategories (extractMLFeatures parseHostname url))
   \<and> (historyQuery env' = historyQuery env \<longrightarrow>
        fst (performMLClassification parseHostname env' url domain db')
          = fst (performMLClassification parseHostname env url domain db))
   \<and> wellFormed classificationFallback"
proof -
  let ?f = "extractMLFeatures parseHostname url"
  have range: "0 \<le> real_of_int (calculateMLThreatScore ?f) / 100"
       "real_of_int (calculateMLThreatScore ?f) / 100 \<le> 1"
    using probability_range [of ?f] by simp_all
  have wf: "wellFormed (fst (performMLClassification parseHostname env url domain db))"
    if "\<forall>r. historyQuery env = Resolved (Some r) \<longrightarrow> 0 \<le> confidence_score r \<and> confidence_score r \<le> 1"
  proof -
    have "\<forall>r. checkHistoricalPatterns (historyQuery env) = Some r
            \<longrightarrow> 0 \<le> confidence_score r \<and> confidence_score r \<le> 1"
      using that by (auto simp: checkHistoricalPatterns_def split: awaited.splits)
    then show ?thesis
      unfolding classification_result by (rule blend_wellFormed [OF range])
  qed
  have score: "0 \<le> calculateMLThreatScore ?f \<and> calculateMLThreatScore ?f \<le> 100"
    using range by simp
  have absent: "checkHistoricalPatterns (historyQuery env) = None"
    if "historyQuery env = Rejected \<or> historyQuery env = Resolved None"
    using that by (auto simp: checkHistoricalPatterns_def)
  have raw: "threatProbability (fst (performMLClassification parseHostname env url domain db))
          = real_of_int (calculateMLThreatScore ?f) / 100
      \<and> confidence (fst (performMLClassification parseHostname env url domain db)) = 0.75
      \<and> predictedCategories (fst (performMLClassification parseHostname env url domain db))
          = initialCategories ?f"
    if "historyQuery env = Rejected \<or> historyQuery env = Resolved None"
    unfolding classification_result absent [OF that]
    by (simp add: blendWithHistory_def Let_def)
  have same: "fst (performMLClassification parseHostname env' url domain db')
          = fst (performMLClassification parseHostname env url domain db)"
    if "historyQuery env' = historyQuery env"
    unfolding classification_result using that by simp
  have "wellFormed classificationFallback"
    by (simp add: wellFormed_def classificationFallback_def)
  then show ?thesis
    using wf score raw same by blast
qed

theorem C9_classification_absorbs_failures_witness:
  "wellFormed (fst (performMLClassification sampleHostname
        (calmEnvironment\<lparr>historyQuery := Resolved (Some sampleRow)\<rparr>)
        ''https://example.com'' ''example.com'' emptyStore))
   \<and> threatProbability (fst (performMLClassification sampleHostname
        (calmEnvironment\<lparr>historyQuery := Rejected, selectCall := Thrown\<rparr>)
        ''https://example.com'' ''example.com'' emptyStore)) = 0
   \<and> confidence (fst (performMLClassification sampleHostname
        (calmEnvironment\<lparr>historyQuery := Rejected, selectCall := Thrown\<rparr>)
        ''https://example.com'' ''example.com'' emptyStore)) = 0.75
   \<and> predictedCategories (fst (performMLClassification sampleHostname
        (calmEnvironment\<lparr>historyQuery := Rejected, selectCall := Thrown\<rparr>)
        ''https://example.com'' ''example.com'' emptyStore)) = []
   \<and> fst (performMLClassification sampleHostname
        (calmEnvironment\<lparr>historyQuery := Rejected, writeCall := ErrorReply\<rparr>)
        ''https://example.com'' ''example.com'' \<lparr> ml_patterns = [sampleRow], blockchain_logs = [] \<rparr>)
     = fst (performMLClassification sampleHostname
        (calmEnvironment\<lparr>historyQuery := Rejected, selectCall := Thrown\<rparr>)
        ''https://example.com'' ''example.com'' emptyStore)"
  using C9_classification_absorbs_failures [where parseHostname = sampleHostname
      and env = "calmEnvironment\<lparr>historyQuery := Resolved (Some sampleRow)\<rparr>"
      and url = "''https://example.com''" and domain = "''example.com''"
      and db = emptyStore and db' = emptyStore and env' = calmEnvironment]
    C9_classification_absorbs_failures [where parseHostname = sampleHostname
      and env = "calmEnvironment\<lparr>historyQuery := Rejected, selectCall := Thrown\<rparr>"
      and url = "''https://example.com''" and domain = "''example.com''"
      and db = emptyStore and db' = "\<lparr> ml_patterns = [sampleRow], blockchain_logs = [] \<rparr>"
      and env' = "calmEnvironment\<lparr>historyQuery := Rejected, writeCall := ErrorReply\<rparr>"]
  by (simp add: calmEnvironment_def sampleRow_def plain_features)

end
